theory Spec2Isabelle
  imports Main
begin

section \<open>Data model of the request card\<close>

text \<open>
  The component \<open>src/components/RequestList/RequestItem/index.tsx\<close> renders one request
  of a media-request manager.  Its imports (the enums of \<open>server/constants/media\<close>, the
  entity \<open>MediaRequest\<close>, the hook \<open>useUser\<close>) are declarations only; they are written
  down here with the members the component reads.
\<close>

text \<open>Modelled from the spec: the enum \<open>MediaRequestStatus\<close> of \<open>server/constants/media\<close>
  (request status: pending, approved, declined).\<close>

datatype MediaRequestStatus = PENDING | APPROVED | DECLINED

text \<open>Modelled from the spec: the enum \<open>MediaStatus\<close> of \<open>server/constants/media\<close>
  (per-quality media status: unknown, pending, processing, partially available, available).\<close>

datatype MediaStatus = UNKNOWN | MEDIA_PENDING | PROCESSING | PARTIALLY_AVAILABLE | AVAILABLE

text \<open>The string union \<open>'movie' | 'tv'\<close> of \<open>request.type\<close>.\<close>

datatype MediaType = movie | tv

text \<open>The members of \<open>Permission\<close> (hook \<open>useUser\<close>) that the component names.\<close>

datatype Permission = MANAGE_REQUESTS | REQUEST_VIEW | REQUEST_ADVANCED

record User =
  user_id :: nat
  displayName :: string
  avatar :: string

record Media =
  media_id :: nat
  tmdbId :: nat
  status :: MediaStatus
  status4k :: MediaStatus
  downloadStatus :: "string list option"
  downloadStatus4k :: "string list option"
  mediaUrl :: "string option"
  mediaUrl4k :: "string option"

record SeasonRequest =
  season_id :: nat
  seasonNumber :: nat

record MediaRequest =
  request_id :: nat
  request_status :: MediaRequestStatus
  media :: Media
  request_type :: MediaType
  is4k :: bool
  seasons :: "SeasonRequest list"
  requestedBy :: User
  modifiedBy :: "User option"

text \<open>
  Title metadata is \<open>MovieDetails | TvDetails\<close>.  A movie carries \<open>title\<close>, a show carries
  \<open>name\<close> and its season list; \<open>isMovie\<close> tells them apart by the presence of \<open>title\<close>.
\<close>

record MovieDetails =
  movie_title :: string
  releaseDate :: "string option"

record TvSeason =
  tv_seasonNumber :: nat

record TvDetails =
  tv_name :: string
  firstAirDate :: "string option"
  tv_seasons :: "TvSeason list"

datatype TitleDetails = Movie MovieDetails | Tv TvDetails

fun isMovie :: "TitleDetails \<Rightarrow> bool" where
  "isMovie (Movie m) = True"
| "isMovie (Tv t) = False"

subsection \<open>Template literals\<close>

text \<open>A number inside a template literal is printed in decimal.\<close>

definition digit :: "nat \<Rightarrow> char" where
  "digit d = ''0123456789'' ! d"

fun decimal :: "nat \<Rightarrow> string" where
  "decimal n = (if n < 10 then [digit n] else decimal (n div 10) @ [digit (n mod 10)])"

declare decimal.simps [simp del]

fun type_string :: "MediaType \<Rightarrow> string" where
  "type_string movie = ''movie''"
| "type_string tv = ''tv''"

subsection \<open>What the hooks hold\<close>

text \<open>
  Everything the function component reads in one render: the prop \<open>request\<close>, the two
  \<open>useSWR\<close> results (\<open>title\<close>/\<open>error\<close> and \<open>requestData\<close>), the result of \<open>useUser\<close>
  (\<open>user\<close>, which may be undefined, and \<open>hasPermission\<close>), the two \<open>useState\<close> cells, and
  a log of the calls the handlers have made to the outside (axios, SWR, toasts).
\<close>

record AxiosResponse =
  data :: MediaRequest

datatype AxiosError = NetworkError | HttpError nat

record Toast =
  content :: string
  autoDismiss :: bool
  appearance :: string

datatype effect =
    AxiosPost string
  | AxiosDelete string
  | Revalidate "MediaRequest option"
  | RevalidateList
  | AddToast Toast

record card =
  request :: MediaRequest
  title :: "TitleDetails option"
  error :: bool
  requestData :: "MediaRequest option"
  user :: "User option"
  hasPermission :: "Permission \<Rightarrow> bool"
  isRetrying :: bool
  showEditModal :: bool
  effects :: "effect list"

section \<open>Rendering\<close>

subsection \<open>The action column (the last \<open>div\<close> of the card)\<close>

datatype modify_type = approve | decline

datatype component = Button | ConfirmButton

datatype message =
    retry | retrying | deleterequest | approve_msg | decline_msg | editrequest | cancelRequest

datatype handler =
    call_retryRequest
  | call_deleteRequest
  | call_modifyRequest modify_type
  | call_setShowEditModal bool
  | call_deleteMedia

record button =
  kind :: component
  label :: message
  disabled :: bool
  onClick :: handler

text \<open>\<open>requestData.media[requestData.is4k ? 'status4k' : 'status']\<close>\<close>

definition selected_status :: "MediaRequest \<Rightarrow> MediaStatus" where
  "selected_status rd = (if is4k rd then status4k (media rd) else status (media rd))"

text \<open>\<open>requestData.requestedBy.id === user?.id\<close>: false when no user is signed in.\<close>

definition is_requester :: "MediaRequest \<Rightarrow> User option \<Rightarrow> bool" where
  "is_requester rd u = (case u of None \<Rightarrow> False | Some usr \<Rightarrow> user_id (requestedBy rd) = user_id usr)"

text \<open>A JSX expression \<open>cond && element\<close> contributes the element when the condition holds
  and nothing otherwise.\<close>

definition shown :: "bool \<Rightarrow> 'a list \<Rightarrow> 'a list" where
  "shown c els = (if c then els else [])"

definition retry_button :: "bool \<Rightarrow> button" where
  "retry_button r =
     \<lparr>kind = Button, label = (if r then retrying else retry), disabled = r,
      onClick = call_retryRequest\<rparr>"

definition delete_button :: button where
  "delete_button =
     \<lparr>kind = ConfirmButton, label = deleterequest, disabled = False,
      onClick = call_deleteRequest\<rparr>"

definition approve_button :: button where
  "approve_button =
     \<lparr>kind = Button, label = approve_msg, disabled = False,
      onClick = call_modifyRequest approve\<rparr>"

definition decline_button :: button where
  "decline_button =
     \<lparr>kind = Button, label = decline_msg, disabled = False,
      onClick = call_modifyRequest decline\<rparr>"

definition edit_button :: button where
  "edit_button =
     \<lparr>kind = Button, label = editrequest, disabled = False,
      onClick = call_setShowEditModal True\<rparr>"

definition cancel_button :: button where
  "cancel_button =
     \<lparr>kind = ConfirmButton, label = cancelRequest, disabled = False,
      onClick = call_deleteRequest\<rparr>"

definition actions :: "card \<Rightarrow> MediaRequest \<Rightarrow> button list" where
  "actions c rd =
     shown (selected_status rd = UNKNOWN \<and> request_status rd \<noteq> DECLINED
            \<and> hasPermission c MANAGE_REQUESTS)
       [retry_button (isRetrying c)]
     @ shown (request_status rd \<noteq> PENDING \<and> hasPermission c MANAGE_REQUESTS)
       [delete_button]
     @ shown (request_status rd = PENDING \<and> hasPermission c MANAGE_REQUESTS)
       [approve_button, decline_button]
     @ shown (request_status rd = PENDING
              \<and> (hasPermission c MANAGE_REQUESTS
                   \<or> (is_requester rd (user c)
                       \<and> (request_type rd = tv \<or> hasPermission c REQUEST_ADVANCED))))
       [edit_button]
     @ shown (request_status rd = PENDING \<and> \<not> hasPermission c MANAGE_REQUESTS
              \<and> is_requester rd (user c))
       [cancel_button]"

subsection \<open>The seasons field\<close>

text \<open>The message \<open>seasons\<close> is \<open>{seasonCount, plural, one {Season} other {Seasons}}\<close>;
  in the default (English) locale the category \<open>one\<close> is the number 1.\<close>

definition seasons_message :: "nat \<Rightarrow> string" where
  "seasons_message seasonCount = (if seasonCount = 1 then ''Season'' else ''Seasons'')"

datatype season_badges = AllBadge | SeasonBadges "nat list"

record seasons_field =
  seasonCount :: nat
  field_name :: string
  badges :: season_badges

text \<open>\<open>title.seasons.filter((season) => season.seasonNumber !== 0).length
  === request.seasons.length\<close>\<close>

definition all_requested :: "TvDetails \<Rightarrow> MediaRequest \<Rightarrow> bool" where
  "all_requested t rq =
     (length (filter (\<lambda>season. tv_seasonNumber season \<noteq> 0) (tv_seasons t))
        = length (seasons rq))"

fun seasons_view :: "TitleDetails \<Rightarrow> MediaRequest \<Rightarrow> seasons_field option" where
  "seasons_view (Movie m) rq = None"
| "seasons_view (Tv t) rq =
     (if length (seasons rq) > 0 then
        Some \<lparr>seasonCount = (if all_requested t rq then 0 else length (seasons rq)),
              field_name =
                seasons_message (if all_requested t rq then 0 else length (seasons rq)),
              badges =
                (if all_requested t rq then AllBadge
                 else SeasonBadges (map seasonNumber (seasons rq)))\<rparr>
      else None)"

subsection \<open>The status field\<close>

record StatusBadge_props =
  sb_status :: MediaStatus
  inProgress :: bool
  sb_is4k :: bool
  sb_tmdbId :: nat
  mediaType :: MediaType
  plexUrl :: "string option"

datatype status_badge =
    is_declined: DeclinedBadge
  | is_failed: FailedBadge (href: string)
  | is_general: StatusBadge (props: StatusBadge_props)

text \<open>\<open>(requestData.media[requestData.is4k ? 'downloadStatus4k' : 'downloadStatus'] ?? [])
  .length > 0\<close>\<close>

definition download_in_progress :: "MediaRequest \<Rightarrow> bool" where
  "download_in_progress rd =
     (length (case (if is4k rd then downloadStatus4k (media rd) else downloadStatus (media rd))
              of None \<Rightarrow> [] | Some ds \<Rightarrow> ds) > 0)"

definition status_view :: "MediaRequest \<Rightarrow> status_badge" where
  "status_view rd =
     (if request_status rd = DECLINED then DeclinedBadge
      else if selected_status rd = UNKNOWN then
        FailedBadge (''/'' @ type_string (request_type rd) @ ''/''
                     @ decimal (tmdbId (media rd)) @ ''?manage=1'')
      else
        StatusBadge
          \<lparr>sb_status = selected_status rd,
           inProgress = download_in_progress rd,
           sb_is4k = is4k rd,
           sb_tmdbId = tmdbId (media rd),
           mediaType = request_type rd,
           plexUrl = (if is4k rd then mediaUrl4k (media rd) else mediaUrl (media rd))\<rparr>)"

subsection \<open>The fallback card \<open>RequestItemError\<close>\<close>

datatype child = Text string | ButtonEl button

definition mediaerror :: string where
  "mediaerror = ''The associated title for this request is no longer available.''"

definition delete_media_button :: button where
  "delete_media_button =
     \<lparr>kind = Button, label = deleterequest, disabled = False, onClick = call_deleteMedia\<rparr>"

text \<open>
  \<open>{hasPermission(Permission.MANAGE_REQUESTS) && mediaId && (<div>...</div>)}\<close>:
  \<open>&&\<close> yields its first falsy operand.  \<open>false\<close> and \<open>undefined\<close> render nothing; a
  \<open>mediaId\<close> of 0 is falsy as well, and React prints the number.
\<close>

definition RequestItemError :: "(Permission \<Rightarrow> bool) \<Rightarrow> nat option \<Rightarrow> child list" where
  "RequestItemError hasPerm mediaId =
     Text mediaerror #
     (if \<not> hasPerm MANAGE_REQUESTS then []
      else case mediaId of
             None \<Rightarrow> []
           | Some n \<Rightarrow> if n = 0 then [Text (decimal n)] else [ButtonEl delete_media_button])"

subsection \<open>The component \<open>RequestItem\<close>\<close>

record card_view =
  modal_shown :: bool
  seasons_shown :: "seasons_field option"
  status_shown :: status_badge
  action_buttons :: "button list"

datatype view = Placeholder | ErrorCard "child list" | RequestCard card_view

text \<open>
  \<open>useSWR<MediaRequest>(`/api/v1/request/${request.id}`, { fallbackData: request })\<close>:
  the \<open>data\<close> it returns is the cached record, and the \<open>request\<close> prop as long as nothing
  is cached.
\<close>

definition useSWR_request :: "MediaRequest option \<Rightarrow> MediaRequest \<Rightarrow> MediaRequest option" where
  "useSWR_request cached fallbackData =
     (case cached of None \<Rightarrow> Some fallbackData | Some d \<Rightarrow> Some d)"

text \<open>\<open>requestData?.media.id\<close>\<close>

definition mediaId_prop :: "card \<Rightarrow> nat option" where
  "mediaId_prop c = (case requestData c of None \<Rightarrow> None | Some rd \<Rightarrow> Some (media_id (media rd)))"

definition RequestItem :: "card \<Rightarrow> view" where
  "RequestItem c =
     (if title c = None \<and> \<not> error c then Placeholder
      else if title c = None \<or> requestData c = None then
        ErrorCard (RequestItemError (hasPermission c) (mediaId_prop c))
      else
        (case (title c, requestData c) of
           (Some t, Some rd) \<Rightarrow>
             RequestCard
               \<lparr>modal_shown = showEditModal c,
                seasons_shown = seasons_view t (request c),
                status_shown = status_view rd,
                action_buttons = actions c rd\<rparr>
         | _ \<Rightarrow> ErrorCard (RequestItemError (hasPermission c) (mediaId_prop c))))"

text \<open>Which buttons a view holds.\<close>

definition buttons_of :: "view \<Rightarrow> button list" where
  "buttons_of v =
     (case v of
        Placeholder \<Rightarrow> []
      | ErrorCard cs \<Rightarrow> concat (map (\<lambda>ch. case ch of Text s \<Rightarrow> [] | ButtonEl b \<Rightarrow> [b]) cs)
      | RequestCard cv \<Rightarrow> action_buttons cv)"

definition rendered :: "button \<Rightarrow> view \<Rightarrow> bool" where
  "rendered b v = (b \<in> set (buttons_of v))"

section \<open>Handlers\<close>

text \<open>
  Each handler is an \<open>async\<close> function with one \<open>await\<close> on an axios call.  The argument
  \<open>res\<close> is what that call settles to: \<open>Inl\<close> a rejection, \<open>Inr\<close> the response.  A rejected
  \<open>await\<close> throws, so the rest of the body is skipped unless a \<open>catch\<close> takes over.  The
  first component of a result says how the handler's own promise settles.
\<close>

definition emit :: "effect \<Rightarrow> card \<Rightarrow> card" where
  "emit e c = c\<lparr>effects := effects c @ [e]\<rparr>"

text \<open>
  \<open>revalidate\<close> is the bound \<open>mutate\<close> of the \<open>useSWR\<close> call for the request record: with an
  argument it stores that value as the local record (and refetches), without one it only
  refetches.
\<close>

definition revalidate :: "MediaRequest option \<Rightarrow> card \<Rightarrow> card" where
  "revalidate d c =
     emit (Revalidate d)
       (c\<lparr>requestData := (case d of None \<Rightarrow> requestData c | Some r \<Rightarrow> Some r)\<rparr>)"

definition revalidateList :: "card \<Rightarrow> card" where
  "revalidateList c = emit RevalidateList c"

definition addToast :: "string \<Rightarrow> bool \<Rightarrow> string \<Rightarrow> card \<Rightarrow> card" where
  "addToast msg dismiss app c =
     emit (AddToast \<lparr>content = msg, autoDismiss = dismiss, appearance = app\<rparr>) c"

definition setRetrying :: "bool \<Rightarrow> card \<Rightarrow> card" where
  "setRetrying b c = c\<lparr>isRetrying := b\<rparr>"

definition setShowEditModal :: "bool \<Rightarrow> card \<Rightarrow> card" where
  "setShowEditModal b c = c\<lparr>showEditModal := b\<rparr>"

fun modify_string :: "modify_type \<Rightarrow> string" where
  "modify_string approve = ''approve''"
| "modify_string decline = ''decline''"

definition failedretry :: string where
  "failedretry = ''Something went wrong while retrying the request.''"

text \<open>\<open>modifyRequest\<close>: the response of a resolved axios call is an object, hence truthy,
  so the guard \<open>if (response)\<close> is passed whenever the \<open>await\<close> returns.\<close>

definition modifyRequest ::
    "modify_type \<Rightarrow> AxiosError + 'r \<Rightarrow> card \<Rightarrow> (AxiosError + unit) \<times> card" where
  "modifyRequest ty res c =
     (let c1 = emit (AxiosPost (''/api/v1/request/'' @ decimal (request_id (request c))
                                @ ''/'' @ modify_string ty)) c
      in case res of
           Inl e \<Rightarrow> (Inl e, c1)
         | Inr response \<Rightarrow> (Inr (), revalidate None c1))"

definition deleteRequest :: "AxiosError + 'r \<Rightarrow> card \<Rightarrow> (AxiosError + unit) \<times> card" where
  "deleteRequest res c =
     (let c1 = emit (AxiosDelete (''/api/v1/request/'' @ decimal (request_id (request c)))) c
      in case res of
           Inl e \<Rightarrow> (Inl e, c1)
         | Inr response \<Rightarrow> (Inr (), revalidateList c1))"

text \<open>\<open>deleteRequest\<close> of \<open>RequestItemError\<close>; an undefined \<open>mediaId\<close> prints as
  \<open>undefined\<close> in the template literal.\<close>

definition deleteMedia ::
    "nat option \<Rightarrow> AxiosError + 'r \<Rightarrow> card \<Rightarrow> (AxiosError + unit) \<times> card" where
  "deleteMedia mediaId res c =
     (let c1 = emit (AxiosDelete (''/api/v1/media/''
                       @ (case mediaId of None \<Rightarrow> ''undefined'' | Some n \<Rightarrow> decimal n))) c
      in case res of
           Inl e \<Rightarrow> (Inl e, c1)
         | Inr response \<Rightarrow> (Inr (), revalidateList c1))"

text \<open>\<open>retryRequest\<close> up to its \<open>await\<close>, and from the moment the call settles.\<close>

definition retryRequest_begin :: "card \<Rightarrow> card" where
  "retryRequest_begin c =
     emit (AxiosPost (''/api/v1/request/'' @ decimal (request_id (request c)) @ ''/retry''))
       (setRetrying True c)"

definition retryRequest_resume :: "AxiosError + AxiosResponse \<Rightarrow> card \<Rightarrow> card" where
  "retryRequest_resume res c =
     setRetrying False
       (case res of
          Inr result \<Rightarrow> revalidate (Some (data result)) c
        | Inl e \<Rightarrow> addToast failedretry True ''error'' c)"

definition retryRequest :: "AxiosError + AxiosResponse \<Rightarrow> card \<Rightarrow> card" where
  "retryRequest res c = retryRequest_resume res (retryRequest_begin c)"

text \<open>What a click on a button runs.\<close>

fun invoke :: "handler \<Rightarrow> AxiosError + AxiosResponse \<Rightarrow> card \<Rightarrow> card" where
  "invoke call_retryRequest res c = retryRequest res c"
| "invoke call_deleteRequest res c = snd (deleteRequest res c)"
| "invoke (call_modifyRequest ty) res c = snd (modifyRequest ty res c)"
| "invoke (call_setShowEditModal b) res c = setShowEditModal b c"
| "invoke call_deleteMedia res c = snd (deleteMedia (mediaId_prop c) res c)"

section \<open>The card over time\<close>

text \<open>
  The card as an event system.  Besides the hook state, a configuration counts the retry
  calls that have been sent and have not settled yet.  The screen is the render of the
  current hook state.  A click reaches \<open>retryRequest\<close> only through a Retry button that is
  on screen and that the \<open>Button\<close> component lets the user click; that component is
  imported, so which buttons it lets through is the parameter \<open>clickable\<close>.  A pending call
  settles at any later moment.  Everything else that happens (SWR delivering data, the
  other handlers, new props) leaves \<open>isRetrying\<close> alone, since \<open>setRetrying\<close> occurs in
  \<open>retryRequest\<close> only.
\<close>

inductive step :: "(button \<Rightarrow> bool) \<Rightarrow> card \<times> nat \<Rightarrow> card \<times> nat \<Rightarrow> bool"
  for clickable :: "button \<Rightarrow> bool" where
  click_retry:
    "b \<in> set (buttons_of (RequestItem c)) \<Longrightarrow> onClick b = call_retryRequest \<Longrightarrow> clickable b
     \<Longrightarrow> step clickable (c, n) (retryRequest_begin c, Suc n)"
| settle: "0 < n \<Longrightarrow> step clickable (c, n) (retryRequest_resume res c, n - 1)"
| other: "isRetrying c' = isRetrying c \<Longrightarrow> step clickable (c, n) (c', n)"

inductive reachable :: "(button \<Rightarrow> bool) \<Rightarrow> card \<times> nat \<Rightarrow> bool"
  for clickable :: "button \<Rightarrow> bool" where
  mounted: "\<not> isRetrying c \<Longrightarrow> reachable clickable (c, 0)"
| later: "reachable clickable s \<Longrightarrow> step clickable s s' \<Longrightarrow> reachable clickable s'"

text \<open>An HTML button with the \<open>disabled\<close> attribute dispatches no click.\<close>

definition enabled :: "button \<Rightarrow> bool" where
  "enabled b = (\<not> disabled b)"

section \<open>Sample data\<close>

definition alice :: User where
  "alice = \<lparr>user_id = 1, displayName = ''alice'', avatar = ''/avatar/1.png''\<rparr>"

definition bob :: User where
  "bob = \<lparr>user_id = 2, displayName = ''bob'', avatar = ''/avatar/2.png''\<rparr>"

definition sample_media :: Media where
  "sample_media =
     \<lparr>media_id = 5, tmdbId = 1399, status = UNKNOWN, status4k = AVAILABLE,
      downloadStatus = None, downloadStatus4k = None,
      mediaUrl = None, mediaUrl4k = None\<rparr>"

definition sample_request :: MediaRequest where
  "sample_request =
     \<lparr>request_id = 7, request_status = PENDING, media = sample_media, request_type = tv,
      is4k = False,
      seasons = [\<lparr>season_id = 11, seasonNumber = 1\<rparr>, \<lparr>season_id = 12, seasonNumber = 2\<rparr>],
      requestedBy = alice, modifiedBy = None\<rparr>"

definition sample_show :: TvDetails where
  "sample_show =
     \<lparr>tv_name = ''A Show'', firstAirDate = Some ''2011-04-17'',
      tv_seasons = [\<lparr>tv_seasonNumber = 0\<rparr>, \<lparr>tv_seasonNumber = 1\<rparr>,
                    \<lparr>tv_seasonNumber = 2\<rparr>]\<rparr>"

definition only :: "Permission \<Rightarrow> Permission \<Rightarrow> bool" where
  "only p q = (q = p)"

definition nothing :: "Permission \<Rightarrow> bool" where
  "nothing q = False"

definition sample_card :: card where
  "sample_card =
     \<lparr>request = sample_request, title = Some (Tv sample_show), error = False,
      requestData = Some sample_request, user = Some alice, hasPermission = nothing,
      isRetrying = False, showEditModal = False, effects = []\<rparr>"

definition manager_card :: card where
  "manager_card = sample_card\<lparr>user := Some bob, hasPermission := only MANAGE_REQUESTS\<rparr>"

section \<open>Auxiliary facts\<close>

lemmas button_defs =
  retry_button_def delete_button_def approve_button_def decline_button_def
  edit_button_def cancel_button_def delete_media_button_def

lemmas sample_defs =
  sample_card_def manager_card_def sample_request_def sample_media_def sample_show_def
  alice_def bob_def only_def nothing_def

lemma decimal_7: "decimal 7 = ''7''"
  by (simp add: decimal.simps digit_def)

lemma decimal_5: "decimal 5 = ''5''"
  by (simp add: decimal.simps digit_def)

lemma card_loaded:
  "title c = Some t \<Longrightarrow> requestData c = Some rd \<Longrightarrow>
   buttons_of (RequestItem c) = actions c rd"
  by (simp add: RequestItem_def buttons_of_def)

lemma card_loaded_view:
  "title c = Some t \<Longrightarrow> requestData c = Some rd \<Longrightarrow>
   RequestItem c =
     RequestCard \<lparr>modal_shown = showEditModal c, seasons_shown = seasons_view t (request c),
                  status_shown = status_view rd, action_buttons = actions c rd\<rparr>"
  by (simp add: RequestItem_def)

lemma error_card_buttons:
  "b \<in> set (concat (map (\<lambda>ch. case ch of Text s \<Rightarrow> [] | ButtonEl b \<Rightarrow> [b])
                      (RequestItemError hp mid))) \<Longrightarrow> b = delete_media_button"
  by (auto simp add: RequestItemError_def split: if_splits option.splits)

lemma retry_button_disabled:
  assumes "b \<in> set (buttons_of (RequestItem c))" and "onClick b = call_retryRequest"
  shows "disabled b = isRetrying c"
proof (cases "RequestItem c")
  case Placeholder
  with assms show ?thesis by (simp add: buttons_of_def)
next
  case (ErrorCard cs)
  then have "cs = RequestItemError (hasPermission c) (mediaId_prop c)"
    by (auto simp add: RequestItem_def split: if_splits option.splits)
  with assms ErrorCard have "b = delete_media_button"
    using error_card_buttons [of b "hasPermission c" "mediaId_prop c"]
    by (simp add: buttons_of_def)
  with assms show ?thesis by (simp add: delete_media_button_def)
next
  case (RequestCard cv)
  then obtain t rd where "title c = Some t" "requestData c = Some rd"
    by (auto simp add: RequestItem_def split: if_splits option.splits)
  then have "buttons_of (RequestItem c) = actions c rd" by (rule card_loaded)
  with assms show ?thesis
    by (auto simp add: actions_def shown_def button_defs split: if_splits)
qed

lemma reachable_inv:
  assumes dom: "\<And>b. clickable b \<Longrightarrow> \<not> disabled b"
  shows "reachable clickable s \<Longrightarrow> snd s = (if isRetrying (fst s) then 1 else 0)"
proof (induction rule: reachable.induct)
  case (mounted c)
  then show ?case by simp
next
  case (later s s')
  from later.hyps(2) show ?case
  proof (cases rule: step.cases)
    case (click_retry b c n)
    then have "\<not> isRetrying c"
      using retry_button_disabled [of b c] dom [of b] by simp
    with click_retry later.IH show ?thesis
      by (simp add: retryRequest_begin_def setRetrying_def emit_def)
  next
    case (settle n c res)
    with later.IH show ?thesis
      by (simp add: retryRequest_resume_def setRetrying_def split: if_splits)
  next
    case (other c' c n)
    with later.IH show ?thesis by simp
  qed
qed

section \<open>Which buttons the card shows\<close>

text \<open>
  The action column exists on the full card only, that is once the title metadata has
  loaded and the local request record is present; the statements about buttons below
  are about that card.  ``The request'' is the local record \<open>requestData\<close>, ``the caller''
  is the result of \<open>useUser\<close>.
\<close>

text \<open>
  C1.  For every request and caller, the Retry button is on the card if and only if the
  media status of the quality variant selected by \<open>is4k\<close> is unknown, the request status
  is not declined, and the caller has the manage-requests permission.
\<close>

theorem retry_button_visibility:
  assumes "title c = Some t" and "requestData c = Some rd"
  shows "rendered (retry_button (isRetrying c)) (RequestItem c) \<longleftrightarrow>
           selected_status rd = UNKNOWN \<and> request_status rd \<noteq> DECLINED
           \<and> hasPermission c MANAGE_REQUESTS"
  using assms
  by (auto simp add: rendered_def card_loaded actions_def shown_def button_defs)

theorem retry_button_visibility_witness:
  "rendered (retry_button False) (RequestItem manager_card)"
  using retry_button_visibility [of manager_card "Tv sample_show" sample_request]
  by (simp add: sample_defs selected_status_def)

text \<open>
  C2, as the component has it.  The Approve and the Decline button are on the card if
  and only if the request status is pending and the caller has the manage-requests
  permission.  A click on either sends exactly one POST to
  \<open>/api/v1/request/<id>/approve\<close> (respectively \<open>decline\<close>) for the id of the request;
  when that call resolves, the local request record is revalidated next; when it is
  rejected, the handler stops there and nothing is revalidated.
\<close>

theorem approve_decline_visibility:
  assumes "title c = Some t" and "requestData c = Some rd"
  shows "(rendered approve_button (RequestItem c) \<longleftrightarrow>
            request_status rd = PENDING \<and> hasPermission c MANAGE_REQUESTS)
       \<and> (rendered decline_button (RequestItem c) \<longleftrightarrow>
            request_status rd = PENDING \<and> hasPermission c MANAGE_REQUESTS)
       \<and> effects (invoke (onClick approve_button) (Inr response) c)
           = effects c @ [AxiosPost (''/api/v1/request/'' @ decimal (request_id (request c))
                                     @ ''/approve''), Revalidate None]
       \<and> effects (invoke (onClick decline_button) (Inr response) c)
           = effects c @ [AxiosPost (''/api/v1/request/'' @ decimal (request_id (request c))
                                     @ ''/decline''), Revalidate None]
       \<and> effects (invoke (onClick approve_button) (Inl e) c)
           = effects c @ [AxiosPost (''/api/v1/request/'' @ decimal (request_id (request c))
                                     @ ''/approve'')]
       \<and> effects (invoke (onClick decline_button) (Inl e) c)
           = effects c @ [AxiosPost (''/api/v1/request/'' @ decimal (request_id (request c))
                                     @ ''/decline'')]"
proof -
  have vis: "rendered approve_button (RequestItem c) \<longleftrightarrow>
            request_status rd = PENDING \<and> hasPermission c MANAGE_REQUESTS"
    "rendered decline_button (RequestItem c) \<longleftrightarrow>
            request_status rd = PENDING \<and> hasPermission c MANAGE_REQUESTS"
    using assms by (auto simp add: rendered_def card_loaded actions_def shown_def button_defs)
  have run: "effects (invoke (call_modifyRequest ty) (Inr response) c)
           = effects c @ [AxiosPost (''/api/v1/request/'' @ decimal (request_id (request c))
                                     @ ''/'' @ modify_string ty), Revalidate None]"
     "effects (invoke (call_modifyRequest ty) (Inl e) c)
           = effects c @ [AxiosPost (''/api/v1/request/'' @ decimal (request_id (request c))
                                     @ ''/'' @ modify_string ty)]" for ty
    by (simp_all add: modifyRequest_def revalidate_def emit_def Let_def)
  show ?thesis
    using vis run [of approve] run [of decline]
    by (simp add: approve_button_def decline_button_def)
qed

theorem approve_decline_visibility_witness:
  "rendered approve_button (RequestItem manager_card)
   \<and> effects (invoke (onClick approve_button) (Inr \<lparr>data = sample_request\<rparr>) manager_card)
       = [AxiosPost ''/api/v1/request/7/approve'', Revalidate None]"
  using approve_decline_visibility [of manager_card "Tv sample_show" sample_request
      "\<lparr>data = sample_request\<rparr>" NetworkError]
  by (simp add: sample_defs decimal_7)

text \<open>
  C2 as worded promises the revalidation after every click.  For the manager looking at
  request 7, with the network down, the click on Approve sends the POST and revalidates
  nothing.
\<close>

theorem approve_rejected_counterexample:
  "rendered approve_button (RequestItem manager_card)
   \<and> effects (invoke (onClick approve_button) (Inl NetworkError) manager_card)
       = [AxiosPost ''/api/v1/request/7/approve'']
   \<and> Revalidate None \<notin> set (effects (invoke (onClick approve_button) (Inl NetworkError)
                                        manager_card))"
  by (simp add: sample_defs decimal_7 rendered_def buttons_of_def RequestItem_def actions_def
      shown_def button_defs selected_status_def is_requester_def modifyRequest_def emit_def Let_def)

text \<open>
  C3.  For every request and caller, the Edit button is on the card if and only if the
  request status is pending and either the caller has the manage-requests permission, or
  the caller is the requester and (the request is a tv request or the caller has the
  advanced-request permission).  In particular it is there for a pending tv request seen
  by its requester without the advanced permission, and it is not there for a pending
  movie request seen by its requester who is neither a manager nor has the advanced
  permission.
\<close>

theorem edit_button_visibility:
  assumes "title c = Some t" and "requestData c = Some rd"
  shows "(rendered edit_button (RequestItem c) \<longleftrightarrow>
            request_status rd = PENDING
            \<and> (hasPermission c MANAGE_REQUESTS
                \<or> (is_requester rd (user c)
                    \<and> (request_type rd = tv \<or> hasPermission c REQUEST_ADVANCED))))
       \<and> (request_status rd = PENDING \<and> request_type rd = tv \<and> is_requester rd (user c)
            \<and> \<not> hasPermission c REQUEST_ADVANCED
          \<longrightarrow> rendered edit_button (RequestItem c))
       \<and> (request_status rd = PENDING \<and> request_type rd = movie \<and> is_requester rd (user c)
            \<and> \<not> hasPermission c MANAGE_REQUESTS \<and> \<not> hasPermission c REQUEST_ADVANCED
          \<longrightarrow> \<not> rendered edit_button (RequestItem c))"
  using assms
  by (auto simp add: rendered_def card_loaded actions_def shown_def button_defs)

theorem edit_button_visibility_witness:
  "rendered edit_button (RequestItem sample_card)
   \<and> \<not> rendered edit_button
         (RequestItem (sample_card
            \<lparr>requestData := Some (sample_request\<lparr>request_type := movie\<rparr>)\<rparr>))"
  using edit_button_visibility [of sample_card "Tv sample_show" sample_request]
    edit_button_visibility
      [of "sample_card\<lparr>requestData := Some (sample_request\<lparr>request_type := movie\<rparr>)\<rparr>"
          "Tv sample_show" "sample_request\<lparr>request_type := movie\<rparr>"]
  by (simp add: sample_defs is_requester_def)

text \<open>
  C4.  For every request and caller, the Delete confirm button is on the card if and only
  if the request status is not pending and the caller has the manage-requests permission;
  the Cancel confirm button is on the card if and only if the request status is pending,
  the caller lacks the manage-requests permission, and the caller is the requester; so
  the two are never on the card together.
\<close>

theorem delete_cancel_visibility:
  assumes "title c = Some t" and "requestData c = Some rd"
  shows "(rendered delete_button (RequestItem c) \<longleftrightarrow>
            request_status rd \<noteq> PENDING \<and> hasPermission c MANAGE_REQUESTS)
       \<and> (rendered cancel_button (RequestItem c) \<longleftrightarrow>
            request_status rd = PENDING \<and> \<not> hasPermission c MANAGE_REQUESTS
            \<and> is_requester rd (user c))
       \<and> \<not> (rendered delete_button (RequestItem c) \<and> rendered cancel_button (RequestItem c))"
  using assms
  by (auto simp add: rendered_def card_loaded actions_def shown_def button_defs)

theorem delete_cancel_visibility_witness:
  "rendered cancel_button (RequestItem sample_card)
   \<and> \<not> rendered delete_button (RequestItem sample_card)
   \<and> rendered delete_button
       (RequestItem (manager_card
          \<lparr>requestData := Some (sample_request\<lparr>request_status := APPROVED\<rparr>)\<rparr>))"
  using delete_cancel_visibility [of sample_card "Tv sample_show" sample_request]
    delete_cancel_visibility
      [of "manager_card\<lparr>requestData := Some (sample_request\<lparr>request_status := APPROVED\<rparr>)\<rparr>"
          "Tv sample_show" "sample_request\<lparr>request_status := APPROVED\<rparr>"]
  by (simp add: sample_defs is_requester_def)

text \<open>
  C6.  For every pending request and every caller who lacks the manage-requests permission
  and is not the requester, the component shows no button at all: none of retry, delete,
  approve, decline, edit, cancel on the card, and none on the placeholder or on the
  fallback card either.
\<close>

theorem no_buttons_for_stranger:
  assumes "requestData c = Some rd" and "request_status rd = PENDING"
    and "\<not> hasPermission c MANAGE_REQUESTS" and "\<not> is_requester rd (user c)"
  shows "buttons_of (RequestItem c) = []"
  using assms
  by (cases "title c")
     (simp_all add: RequestItem_def buttons_of_def RequestItemError_def actions_def shown_def)

theorem no_buttons_for_stranger_witness:
  "buttons_of (RequestItem (sample_card\<lparr>user := Some bob\<rparr>)) = []"
  using no_buttons_for_stranger [of "sample_card\<lparr>user := Some bob\<rparr>" sample_request]
  by (simp add: sample_defs is_requester_def)

section \<open>The retry action\<close>

text \<open>
  C5.  In every run of the retry action the flag \<open>isRetrying\<close> is set first, before the POST
  is sent, and it is cleared when the call has settled, whether it resolved or was
  rejected.  After a rejection one toast has been added, an error toast that dismisses
  itself, and the local record is what it was.  After a resolution no toast has been added
  and the local record is the payload of the response.
\<close>

theorem retry_flag_finally:
  "isRetrying (retryRequest_begin c)
   \<and> effects (retryRequest_begin c)
       = effects c @ [AxiosPost (''/api/v1/request/'' @ decimal (request_id (request c))
                                 @ ''/retry'')]
   \<and> \<not> isRetrying (invoke call_retryRequest (Inl e) c)
   \<and> \<not> isRetrying (invoke call_retryRequest (Inr result) c)
   \<and> effects (invoke call_retryRequest (Inl e) c)
       = effects c @ [AxiosPost (''/api/v1/request/'' @ decimal (request_id (request c))
                                 @ ''/retry''),
                      AddToast \<lparr>content = failedretry, autoDismiss = True,
                                appearance = ''error''\<rparr>]
   \<and> requestData (invoke call_retryRequest (Inl e) c) = requestData c
   \<and> effects (invoke call_retryRequest (Inr result) c)
       = effects c @ [AxiosPost (''/api/v1/request/'' @ decimal (request_id (request c))
                                 @ ''/retry''),
                      Revalidate (Some (data result))]
   \<and> requestData (invoke call_retryRequest (Inr result) c) = Some (data result)"
  by (simp add: retryRequest_def retryRequest_begin_def retryRequest_resume_def
      setRetrying_def revalidate_def addToast_def emit_def)

theorem retry_flag_finally_witness:
  "\<not> isRetrying (invoke call_retryRequest (Inl (HttpError 500)) manager_card)
   \<and> effects (invoke call_retryRequest (Inl (HttpError 500)) manager_card)
       = [AxiosPost ''/api/v1/request/7/retry'',
          AddToast \<lparr>content = ''Something went wrong while retrying the request.'',
                    autoDismiss = True, appearance = ''error''\<rparr>]
   \<and> requestData (invoke call_retryRequest
        (Inr \<lparr>data = sample_request\<lparr>request_status := APPROVED\<rparr>\<rparr>) manager_card)
       = Some (sample_request\<lparr>request_status := APPROVED\<rparr>)"
  using retry_flag_finally [of manager_card "HttpError 500"
      "\<lparr>data = sample_request\<lparr>request_status := APPROVED\<rparr>\<rparr>"]
  by (simp add: sample_defs decimal_7 failedretry_def)

text \<open>
  C8.  A Retry button on the screen is disabled exactly while \<open>isRetrying\<close> is set.  Hence,
  if the \<open>Button\<close> component lets no click through a disabled button, then in every
  configuration the card can reach at most one retry call is pending, a pending call
  implies that the flag is set, and while a call is pending no Retry button can be
  clicked: a second retry starts only after the first has settled and cleared the flag.
\<close>

theorem retry_never_overlaps:
  assumes "\<And>b. clickable b \<Longrightarrow> \<not> disabled b" and "reachable clickable (c, n)"
  shows "(\<forall>b \<in> set (buttons_of (RequestItem c)).
            onClick b = call_retryRequest \<longrightarrow> disabled b = isRetrying c)
       \<and> n \<le> 1
       \<and> (0 < n \<longrightarrow> isRetrying c)
       \<and> (0 < n \<longrightarrow> (\<forall>b \<in> set (buttons_of (RequestItem c)).
                        onClick b = call_retryRequest \<longrightarrow> \<not> clickable b))"
proof -
  have inv: "n = (if isRetrying c then 1 else 0)"
    using reachable_inv [of clickable "(c, n)"] assms by simp
  have dis: "\<forall>b \<in> set (buttons_of (RequestItem c)).
            onClick b = call_retryRequest \<longrightarrow> disabled b = isRetrying c"
    using retry_button_disabled by blast
  have blocked: "0 < n \<longrightarrow> (\<forall>b \<in> set (buttons_of (RequestItem c)).
                        onClick b = call_retryRequest \<longrightarrow> \<not> clickable b)"
    using inv dis assms(1) by (auto split: if_splits)
  from inv dis blocked show ?thesis by (simp split: if_splits)
qed

theorem retry_never_overlaps_witness:
  "reachable enabled (retryRequest_begin manager_card, Suc 0)
   \<and> isRetrying (retryRequest_begin manager_card)
   \<and> \<not> enabled (retry_button (isRetrying (retryRequest_begin manager_card)))"
proof -
  have dom: "\<And>b. enabled b \<Longrightarrow> \<not> disabled b" by (simp add: enabled_def)
  have "reachable enabled (manager_card, 0)"
    by (rule reachable.mounted) (simp add: sample_defs)
  moreover have "retry_button False \<in> set (buttons_of (RequestItem manager_card))"
    by (simp add: buttons_of_def RequestItem_def actions_def shown_def
        button_defs selected_status_def sample_defs)
  moreover have "onClick (retry_button False) = call_retryRequest"
    and "enabled (retry_button False)"
    by (simp_all add: retry_button_def enabled_def)
  ultimately have r: "reachable enabled (retryRequest_begin manager_card, Suc 0)"
    using step.click_retry [of "retry_button False" manager_card enabled 0]
      reachable.later by blast
  have "retry_button True
          \<in> set (buttons_of (RequestItem (retryRequest_begin manager_card)))"
    by (simp add: buttons_of_def RequestItem_def actions_def shown_def retryRequest_begin_def
        setRetrying_def emit_def button_defs selected_status_def sample_defs)
  moreover have "isRetrying (retryRequest_begin manager_card)"
    by (simp add: retryRequest_begin_def setRetrying_def emit_def)
  ultimately show ?thesis
    using retry_never_overlaps [OF dom r] r by (auto simp add: retry_button_def)
qed

section \<open>The fallback card\<close>

text \<open>
  C7, as the component has it.  Whenever the title metadata fails to load (the title is
  absent and its request has an error), or the local request record, from which the media
  id is read, is absent, the component shows the fallback card; the record being what
  \<open>useSWR\<close> returns with \<open>fallbackData: request\<close>, it is never absent.  Whatever the hooks
  hold, the fallback card is shown exactly when the title is absent with an error, or the
  title is present and the record is absent, and the loading placeholder exactly when the
  title is absent without an error.  The fallback card starts with the static message.
  It holds the delete button for the media if and only if the caller has the
  manage-requests permission and the media id is defined and not 0.  A click on that
  button sends one DELETE to \<open>/api/v1/media/<id>\<close>; when the call resolves the list is
  revalidated next, when it is rejected the list is not revalidated.
\<close>

theorem error_card_rendering:
  "(requestData c = useSWR_request cached (request c) \<longrightarrow>
      requestData c \<noteq> None
      \<and> ((title c = None \<and> error c) \<or> requestData c = None \<longrightarrow>
           RequestItem c = ErrorCard (RequestItemError (hasPermission c) (mediaId_prop c))))
   \<and> (RequestItem c = ErrorCard (RequestItemError (hasPermission c) (mediaId_prop c)) \<longleftrightarrow>
        (title c = None \<and> error c) \<or> (title c \<noteq> None \<and> requestData c = None))
   \<and> (RequestItem c = Placeholder \<longleftrightarrow> title c = None \<and> \<not> error c)
   \<and> (\<exists>rest. RequestItemError hp mid = Text mediaerror # rest)
   \<and> (ButtonEl delete_media_button \<in> set (RequestItemError hp mid) \<longleftrightarrow>
        hp MANAGE_REQUESTS \<and> (\<exists>n. mid = Some n \<and> n \<noteq> 0))
   \<and> effects (invoke (onClick delete_media_button) (Inr response) c)
       = effects c @ [AxiosDelete (''/api/v1/media/''
                        @ (case mediaId_prop c of None \<Rightarrow> ''undefined''
                           | Some n \<Rightarrow> decimal n)),
                      RevalidateList]
   \<and> effects (invoke (onClick delete_media_button) (Inl e) c)
       = effects c @ [AxiosDelete (''/api/v1/media/''
                        @ (case mediaId_prop c of None \<Rightarrow> ''undefined''
                           | Some n \<Rightarrow> decimal n))]"
proof -
  have a: "RequestItem c = ErrorCard (RequestItemError (hasPermission c) (mediaId_prop c)) \<longleftrightarrow>
      (title c = None \<and> error c) \<or> (title c \<noteq> None \<and> requestData c = None)"
    by (auto simp add: RequestItem_def split: option.splits)
  have p: "RequestItem c = Placeholder \<longleftrightarrow> title c = None \<and> \<not> error c"
    by (auto simp add: RequestItem_def split: option.splits)
  have h: "requestData c = useSWR_request cached (request c) \<longrightarrow> requestData c \<noteq> None"
    by (simp add: useSWR_request_def split: option.splits)
  have b: "\<exists>rest. RequestItemError hp mid = Text mediaerror # rest"
    by (simp add: RequestItemError_def)
  have c: "ButtonEl delete_media_button \<in> set (RequestItemError hp mid) \<longleftrightarrow>
        hp MANAGE_REQUESTS \<and> (\<exists>n. mid = Some n \<and> n \<noteq> 0)"
    by (auto simp add: RequestItemError_def split: option.splits)
  have d: "effects (invoke call_deleteMedia (Inr response) c)
       = effects c @ [AxiosDelete (''/api/v1/media/''
                        @ (case mediaId_prop c of None \<Rightarrow> ''undefined''
                           | Some n \<Rightarrow> decimal n)),
                      RevalidateList]"
    "effects (invoke call_deleteMedia (Inl e) c)
       = effects c @ [AxiosDelete (''/api/v1/media/''
                        @ (case mediaId_prop c of None \<Rightarrow> ''undefined''
                           | Some n \<Rightarrow> decimal n))]"
    by (simp_all add: deleteMedia_def revalidateList_def emit_def Let_def)
  have oc: "onClick delete_media_button = call_deleteMedia"
    by (simp add: delete_media_button_def)
  from a h have first: "requestData c = useSWR_request cached (request c) \<longrightarrow>
      requestData c \<noteq> None
      \<and> ((title c = None \<and> error c) \<or> requestData c = None \<longrightarrow>
           RequestItem c = ErrorCard (RequestItemError (hasPermission c) (mediaId_prop c)))"
    by blast
  from first a p b c d show ?thesis
    unfolding oc by blast
qed

theorem error_card_rendering_witness:
  "requestData (manager_card\<lparr>title := None, error := True\<rparr>)
     = useSWR_request None (request (manager_card\<lparr>title := None, error := True\<rparr>))
   \<and> RequestItem (manager_card\<lparr>title := None, error := True\<rparr>)
       = ErrorCard [Text mediaerror, ButtonEl delete_media_button]
   \<and> effects (invoke (onClick delete_media_button) (Inr \<lparr>data = sample_request\<rparr>)
                (manager_card\<lparr>title := None, error := True\<rparr>))
       = [AxiosDelete ''/api/v1/media/5'', RevalidateList]"
  using error_card_rendering [of "manager_card\<lparr>title := None, error := True\<rparr>" None
      "only MANAGE_REQUESTS" "Some 5" "\<lparr>data = sample_request\<rparr>" NetworkError]
  by (simp add: sample_defs mediaId_prop_def RequestItemError_def decimal_5
      useSWR_request_def)

text \<open>
  C7 as worded promises the revalidation of the list after every click.  For the manager
  whose title request for request 7 has failed, the fallback card holds the delete
  button; with the network down, the click sends the DELETE for media 5 and does not
  revalidate the list.
\<close>

theorem error_card_counterexample:
  "requestData (manager_card\<lparr>title := None, error := True\<rparr>)
     = useSWR_request None (request (manager_card\<lparr>title := None, error := True\<rparr>))
   \<and> rendered delete_media_button (RequestItem (manager_card\<lparr>title := None, error := True\<rparr>))
   \<and> effects (invoke (onClick delete_media_button) (Inl NetworkError)
                (manager_card\<lparr>title := None, error := True\<rparr>))
       = [AxiosDelete ''/api/v1/media/5'']
   \<and> RevalidateList \<notin> set (effects (invoke (onClick delete_media_button) (Inl NetworkError)
                (manager_card\<lparr>title := None, error := True\<rparr>)))"
  by (simp add: sample_defs RequestItem_def RequestItemError_def rendered_def buttons_of_def
      delete_media_button_def deleteMedia_def mediaId_prop_def emit_def decimal_5 Let_def
      useSWR_request_def)

section \<open>Fields of the card\<close>

text \<open>
  C9.  In the status field a declined request always shows the declined badge, whatever
  the media status.  The failed badge is shown exactly when the request is not declined
  and the media status of the selected quality variant is unknown; the general status
  badge exactly when the request is not declined and that media status is not unknown.
\<close>

theorem status_badge_precedence:
  assumes "title c = Some t" and "requestData c = Some rd"
  shows "\<exists>cv. RequestItem c = RequestCard cv
       \<and> (request_status rd = DECLINED \<longrightarrow> status_shown cv = DeclinedBadge)
       \<and> (is_failed (status_shown cv) \<longleftrightarrow>
            request_status rd \<noteq> DECLINED \<and> selected_status rd = UNKNOWN)
       \<and> (is_general (status_shown cv) \<longleftrightarrow>
            request_status rd \<noteq> DECLINED \<and> selected_status rd \<noteq> UNKNOWN)"
  using assms by (simp add: card_loaded_view status_view_def)

theorem status_badge_precedence_witness:
  "\<exists>cv. RequestItem
           (sample_card\<lparr>requestData := Some (sample_request\<lparr>request_status := DECLINED\<rparr>)\<rparr>)
         = RequestCard cv
       \<and> status_shown cv = DeclinedBadge"
proof -
  let ?rd = "sample_request\<lparr>request_status := DECLINED\<rparr>"
  let ?c = "sample_card\<lparr>requestData := Some ?rd\<rparr>"
  have t: "title ?c = Some (Tv sample_show)" by (simp add: sample_card_def)
  have r: "requestData ?c = Some ?rd" by simp
  have d: "request_status ?rd = DECLINED" by simp
  from status_badge_precedence [OF t r] d show ?thesis by blast
qed

text \<open>
  C10.  For every tv request with a non-empty list of requested seasons, once the show's
  metadata has loaded, the seasons field is on the card.  It shows the single ``All''
  badge if and only if the number of requested seasons equals the number of the show's
  seasons whose season number is not 0; otherwise it shows one badge per requested season
  number, in order.  The season count given to the field's name is 0 exactly in the
  ``All'' case, where the name reads ``Seasons''; otherwise it is the number of requested
  seasons.
\<close>

theorem seasons_field_all_badge:
  assumes "title c = Some (Tv t)" and "requestData c = Some rd"
    and "seasons (request c) \<noteq> []"
  shows "\<exists>cv f. RequestItem c = RequestCard cv \<and> seasons_shown cv = Some f
       \<and> (badges f = AllBadge \<longleftrightarrow>
            length (seasons (request c))
              = length (filter (\<lambda>season. tv_seasonNumber season \<noteq> 0) (tv_seasons t)))
       \<and> (badges f \<noteq> AllBadge \<longrightarrow>
            badges f = SeasonBadges (map seasonNumber (seasons (request c))))
       \<and> (seasonCount f = 0 \<longleftrightarrow> badges f = AllBadge)
       \<and> (badges f = AllBadge \<longrightarrow> field_name f = ''Seasons'')
       \<and> (badges f \<noteq> AllBadge \<longrightarrow> seasonCount f = length (seasons (request c)))"
  using assms
  by (auto simp add: card_loaded_view all_requested_def seasons_message_def)

theorem seasons_field_all_badge_witness:
  "\<exists>cv f. RequestItem sample_card = RequestCard cv \<and> seasons_shown cv = Some f
        \<and> badges f = AllBadge \<and> seasonCount f = 0 \<and> field_name f = ''Seasons''"
proof -
  have t: "title sample_card = Some (Tv sample_show)" by (simp add: sample_card_def)
  have r: "requestData sample_card = Some sample_request" by (simp add: sample_card_def)
  have s: "seasons (request sample_card) \<noteq> []"
    by (simp add: sample_card_def sample_request_def)
  have n: "length (seasons (request sample_card))
             = length (filter (\<lambda>season. tv_seasonNumber season \<noteq> 0) (tv_seasons sample_show))"
    by (simp add: sample_card_def sample_request_def sample_show_def)
  from seasons_field_all_badge [OF t r s] n show ?thesis by metis
qed

end
